theory Spec2Isabelle
  imports Complex_Main "HOL-Library.Multiset"
begin

section \<open>Data model of backend/server.py\<close>

text \<open>
  The service keeps its state in MongoDB collections. A collection is modelled as the list
  of its documents in insertion (natural) order, a pydantic model as a record. Field names
  follow the source; a prefix is added where two models share a name (\<open>id\<close>,
  \<open>user_id\<close>, \<open>status\<close>, \<open>created_at\<close>, \<open>amount\<close>, ...).

  Monetary values are Python \<open>float\<close>s, stored by MongoDB as BSON doubles: they are
  values of the type \<open>double\<close> below, with IEEE-754 binary64 addition and comparison.
  A \<open>datetime\<close> is a point on a discrete clock. Values produced by \<open>uuid.uuid4()\<close>,
  \<open>datetime.utcnow()\<close> and the password hash are inputs of the modelled operations.
\<close>

type_synonym datetime = nat

subsection \<open>Binary64 floating point\<close>

text \<open>
  A double is a finite number, an infinity or NaN. The two zeros are one value: they compare
  equal and adding either leaves the other operand as it is. \<open>round_double\<close> is rounding
  to nearest, ties to even: the numbers of the format are the multiples \<open>n * 2^q\<close> with
  \<open>\<bar>n\<bar> \<le> 2^53\<close>, where \<open>q\<close> is 52 below the binary exponent of the number, and
  \<open>-1074\<close> for the subnormal numbers; a result of magnitude \<open>2^1024\<close> or more is
  an infinity. \<open>is_double\<close> singles out the finite values that the format has.
\<close>

datatype double = Finite real | PlusInf | MinusInf | NaN

fun log2_floor :: "nat \<Rightarrow> nat" where
  "log2_floor n = (if n < 2 then 0 else Suc (log2_floor (n div 2)))"

definition log2_ceil :: "nat \<Rightarrow> nat" where
  "log2_ceil n = (if n \<le> 1 then 0 else Suc (log2_floor (n - 1)))"

text \<open>The binary exponent \<open>e\<close> of \<open>x \<noteq> 0\<close>: \<open>2^e \<le> \<bar>x\<bar> < 2^(e+1)\<close>.\<close>

definition exponent :: "real \<Rightarrow> int" where
  "exponent x =
     (if 1 \<le> \<bar>x\<bar> then int (log2_floor (nat \<lfloor>\<bar>x\<bar>\<rfloor>))
      else - int (log2_ceil (nat \<lceil>1 / \<bar>x\<bar>\<rceil>)))"

definition pow2 :: "int \<Rightarrow> real" where
  "pow2 k = (if 0 \<le> k then 2 ^ nat k else 1 / 2 ^ nat (- k))"

definition round_half_even :: "real \<Rightarrow> int" where
  "round_half_even r =
     (let f = \<lfloor>r\<rfloor>; d = r - of_int f
      in if d < 1 / 2 then f else if 1 / 2 < d then f + 1
         else if even f then f else f + 1)"

definition round_double :: "real \<Rightarrow> double" where
  "round_double x =
     (if x = 0 then Finite 0
      else
        let q = max (exponent x - 52) (- 1074);
            y = of_int (round_half_even (x / pow2 q)) * pow2 q
        in if 2 ^ 1024 \<le> \<bar>y\<bar> then (if 0 < x then PlusInf else MinusInf)
           else Finite y)"

definition is_double :: "double \<Rightarrow> bool" where
  "is_double d = (case d of Finite x \<Rightarrow> round_double x = Finite x | _ \<Rightarrow> True)"

text \<open>Addition (\<open>+\<close>, and \<open>$inc\<close> on a stored double), negation and \<open><\<close>.\<close>

fun dadd :: "double \<Rightarrow> double \<Rightarrow> double" where
  "dadd (Finite x) (Finite y) =
     (if y = 0 then Finite x else if x = 0 then Finite y else round_double (x + y))"
| "dadd NaN _ = NaN"
| "dadd _ NaN = NaN"
| "dadd PlusInf MinusInf = NaN"
| "dadd MinusInf PlusInf = NaN"
| "dadd PlusInf _ = PlusInf"
| "dadd _ PlusInf = PlusInf"
| "dadd MinusInf _ = MinusInf"
| "dadd _ MinusInf = MinusInf"

fun dneg :: "double \<Rightarrow> double" where
  "dneg (Finite x) = Finite (- x)"
| "dneg PlusInf = MinusInf"
| "dneg MinusInf = PlusInf"
| "dneg NaN = NaN"

fun dless :: "double \<Rightarrow> double \<Rightarrow> bool" where
  "dless (Finite x) (Finite y) = (x < y)"
| "dless NaN _ = False"
| "dless _ NaN = False"
| "dless MinusInf MinusInf = False"
| "dless MinusInf _ = True"
| "dless _ MinusInf = False"
| "dless PlusInf _ = False"
| "dless _ PlusInf = True"

datatype error = HTTPException (status_code: nat) (detail: string) | ValidationError

record User =
  u_id :: string
  email :: string
  full_name :: string
  phone :: "string option"
  kyc_status :: string
  is_active :: bool
  u_created_at :: datetime
  google_id :: "string option"

text \<open>The stored user document is \<open>user.dict()\<close> plus the key \<open>password\<close>.\<close>

record user_doc = User +
  password :: string

record UserCreate =
  uc_email :: string
  uc_password :: string
  uc_full_name :: string
  uc_phone :: "string option"

record KYCDocument =
  kyc_id :: string
  kyc_user_id :: string
  document_type :: string
  document_number :: string
  document_image :: string
  selfie_image :: string
  ocr_data :: "(string \<times> string) list option"
  ai_analysis :: "(string \<times> string) list option"
  kyc_doc_status :: string
  submitted_at :: datetime
  reviewed_at :: "datetime option"
  reviewer_id :: "string option"
  reviewer_notes :: "string option"

record PIXAccount =
  acc_id :: string
  acc_user_id :: string
  pix_key :: string
  pix_key_type :: string
  account_type :: string
  balance :: double
  acc_is_active :: bool
  acc_created_at :: datetime

record PIXTransaction =
  tx_id :: string
  from_user_id :: "string option"
  to_user_id :: "string option"
  from_pix_key :: "string option"
  to_pix_key :: string
  amount :: double
  description :: "string option"
  transaction_type :: string
  tx_status :: string
  qr_code :: "string option"
  tx_created_at :: datetime
  completed_at :: "datetime option"

record PIXTransfer =
  tr_to_pix_key :: string
  tr_amount :: double
  tr_description :: "string option"

record PIXQRCode =
  qr_amount :: double
  qr_description :: "string option"

record VirtualCard =
  card_id :: string
  card_user_id :: string
  card_number :: string
  card_holder_name :: string
  cvv :: string
  expiry_date :: string
  card_status :: string
  daily_limit :: double
  monthly_limit :: double
  daily_spent :: double
  monthly_spent :: double
  card_created_at :: datetime
  blocked_at :: "datetime option"

record CardCreate =
  cc_card_holder_name :: string
  cc_daily_limit :: "double option"
  cc_monthly_limit :: "double option"

record database =
  users :: "user_doc list"
  kyc_documents :: "KYCDocument list"
  pix_accounts :: "PIXAccount list"
  pix_transactions :: "PIXTransaction list"
  virtual_cards :: "VirtualCard list"

subsection \<open>Collection operations\<close>

text \<open>
  \<open>find_one\<close> returns the first document that matches the filter, \<open>insert_one\<close>
  appends, \<open>update_one\<close> changes the first matching document only and
  \<open>matched_count\<close> is the \<open>matched_count\<close> of its result.
\<close>

fun find_one :: "('a \<Rightarrow> bool) \<Rightarrow> 'a list \<Rightarrow> 'a option" where
  "find_one P [] = None"
| "find_one P (x # xs) = (if P x then Some x else find_one P xs)"

definition insert_one :: "'a \<Rightarrow> 'a list \<Rightarrow> 'a list" where
  "insert_one x xs = xs @ [x]"

fun update_one :: "('a \<Rightarrow> bool) \<Rightarrow> ('a \<Rightarrow> 'a) \<Rightarrow> 'a list \<Rightarrow> 'a list" where
  "update_one P f [] = []"
| "update_one P f (x # xs) = (if P x then f x # xs else x # update_one P f xs)"

definition matched_count :: "('a \<Rightarrow> bool) \<Rightarrow> 'a list \<Rightarrow> nat" where
  "matched_count P xs = (case find_one P xs of None \<Rightarrow> 0 | Some _ \<Rightarrow> 1)"

text \<open>\<open>{"$inc": {"balance": d}}\<close> on a PIX account.\<close>

definition inc_balance :: "double \<Rightarrow> PIXAccount \<Rightarrow> PIXAccount" where
  "inc_balance d a = a\<lparr>balance := dadd (balance a) d\<rparr>"

section \<open>Operations\<close>

subsection \<open>register\<close>

text \<open>
  The access token of the response is issued by the JWT library and is left out: the
  operation returns the created \<open>User\<close>.
\<close>

definition register ::
  "string \<Rightarrow> datetime \<Rightarrow> string \<Rightarrow> string \<Rightarrow> datetime \<Rightarrow> UserCreate \<Rightarrow> database
    \<Rightarrow> (error + User) \<times> database" where
  "register new_user_id user_now hashed_password new_account_id account_now user_data db =
    (case find_one (\<lambda>u. email u = uc_email user_data) (users db) of
       Some existing_user \<Rightarrow> (Inl (HTTPException 400 ''Email already registered''), db)
     | None \<Rightarrow>
        let user = \<lparr>u_id = new_user_id, email = uc_email user_data,
                     full_name = uc_full_name user_data, phone = uc_phone user_data,
                     kyc_status = ''pending'', is_active = True,
                     u_created_at = user_now, google_id = None\<rparr>;
            user_dict = \<lparr>u_id = u_id user, email = email user, full_name = full_name user,
                     phone = phone user, kyc_status = kyc_status user,
                     is_active = is_active user, u_created_at = u_created_at user,
                     google_id = google_id user, password = hashed_password\<rparr>;
            db1 = db\<lparr>users := insert_one user_dict (users db)\<rparr>;
            pix_account = \<lparr>acc_id = new_account_id, acc_user_id = u_id user,
                     pix_key = uc_email user_data, pix_key_type = ''email'',
                     account_type = ''checking'', balance = Finite 0, acc_is_active = True,
                     acc_created_at = account_now\<rparr>;
            db2 = db1\<lparr>pix_accounts := insert_one pix_account (pix_accounts db1)\<rparr>
        in (Inr user, db2))"

subsection \<open>pix_transfer\<close>

definition pix_transfer ::
  "string \<Rightarrow> datetime \<Rightarrow> datetime \<Rightarrow> PIXTransfer \<Rightarrow> User \<Rightarrow> database
    \<Rightarrow> (error + (string \<times> string) list) \<times> database" where
  "pix_transfer new_id now_created now_completed transfer_data current_user db =
    (case find_one (\<lambda>a. acc_user_id a = u_id current_user) (pix_accounts db) of
       None \<Rightarrow> (Inl (HTTPException 404 ''PIX account not found''), db)
     | Some sender_account \<Rightarrow>
        if dless (balance sender_account) (tr_amount transfer_data)
        then (Inl (HTTPException 400 ''Insufficient balance''), db)
        else
          (case find_one (\<lambda>a. pix_key a = tr_to_pix_key transfer_data) (pix_accounts db) of
             None \<Rightarrow> (Inl (HTTPException 404 ''Recipient not found''), db)
           | Some recipient_account \<Rightarrow>
              let transaction = \<lparr>tx_id = new_id,
                     from_user_id = Some (u_id current_user),
                     to_user_id = Some (acc_user_id recipient_account),
                     from_pix_key = Some (pix_key sender_account),
                     to_pix_key = tr_to_pix_key transfer_data,
                     amount = tr_amount transfer_data,
                     description = tr_description transfer_data,
                     transaction_type = ''send'', tx_status = ''completed'',
                     qr_code = None, tx_created_at = now_created,
                     completed_at = Some now_completed\<rparr>;
                  db1 = db\<lparr>pix_transactions := insert_one transaction (pix_transactions db)\<rparr>;
                  db2 = db1\<lparr>pix_accounts :=
                     update_one (\<lambda>a. acc_user_id a = u_id current_user)
                       (inc_balance (dneg (tr_amount transfer_data))) (pix_accounts db1)\<rparr>;
                  db3 = db2\<lparr>pix_accounts :=
                     update_one (\<lambda>a. acc_user_id a = acc_user_id recipient_account)
                       (inc_balance (tr_amount transfer_data)) (pix_accounts db2)\<rparr>
              in (Inr [(''message'', ''Transfer completed successfully''),
                       (''transaction_id'', tx_id transaction)], db3)))"

subsection \<open>generate_pix_qr\<close>

text \<open>
  \<open>json.dumps\<close>, the QR renderer \<open>generate_qr_code\<close> (qrcode, PIL and base64) and
  \<open>str\<close> on a float are library code: they are parameters of the model. The payload
  is the dictionary handed to \<open>json.dumps\<close>, in the order of its keys.
\<close>

datatype json = JString string | JNumber double | JNull

definition generate_pix_qr ::
  "((string \<times> json) list \<Rightarrow> string) \<Rightarrow> (string \<Rightarrow> string) \<Rightarrow> (double \<Rightarrow> string)
    \<Rightarrow> PIXQRCode \<Rightarrow> User \<Rightarrow> database \<Rightarrow> (error + (string \<times> string) list) \<times> database" where
  "generate_pix_qr json_dumps generate_qr_code str_float qr_data current_user db =
    (case find_one (\<lambda>a. acc_user_id a = u_id current_user) (pix_accounts db) of
       None \<Rightarrow> (Inl (HTTPException 404 ''PIX account not found''), db)
     | Some pix_account \<Rightarrow>
        let qr_payload = [(''pix_key'', JString (pix_key pix_account)),
                          (''amount'', JNumber (qr_amount qr_data)),
                          (''description'',
                             (case qr_description qr_data of None \<Rightarrow> JNull | Some d \<Rightarrow> JString d)),
                          (''merchant_name'', JString (full_name current_user))];
            qr_code_image = generate_qr_code (json_dumps qr_payload)
        in (Inr [(''qr_code'', qr_code_image),
                 (''pix_key'', pix_key pix_account),
                 (''amount'', str_float (qr_amount qr_data))], db))"

subsection \<open>get_pix_transactions\<close>

text \<open>
  \<open>find({"$or": [...]}).sort("created_at", -1).to_list(100)\<close>: the matching documents,
  newest first, cut after 100. MongoDB leaves the order of documents with equal
  \<open>created_at\<close> open; the model takes the reverse of a stable ascending sort.
\<close>

definition involves :: "string \<Rightarrow> PIXTransaction \<Rightarrow> bool" where
  "involves uid t \<longleftrightarrow> from_user_id t = Some uid \<or> to_user_id t = Some uid"

definition sort_desc :: "('a \<Rightarrow> datetime) \<Rightarrow> 'a list \<Rightarrow> 'a list" where
  "sort_desc k xs = rev (sort_key k xs)"

definition get_pix_transactions :: "User \<Rightarrow> database \<Rightarrow> PIXTransaction list" where
  "get_pix_transactions current_user db =
     take 100 (sort_desc tx_created_at
       (filter (involves (u_id current_user)) (pix_transactions db)))"

subsection \<open>create_card\<close>

text \<open>
  A field of the JSON body is absent, \<open>null\<close> or a value. \<open>CardCreate\<close> declares both
  limits \<open>Optional[float]\<close> with a default: an absent key takes the default, \<open>null\<close>
  stays \<open>None\<close>.
\<close>

datatype 'a json_field = Absent | Null | Given 'a

definition with_default :: "double \<Rightarrow> double json_field \<Rightarrow> double option" where
  "with_default d f = (case f of Absent \<Rightarrow> Some d | Null \<Rightarrow> None | Given x \<Rightarrow> Some x)"

definition CardCreate_of :: "string \<Rightarrow> double json_field \<Rightarrow> double json_field \<Rightarrow> CardCreate" where
  "CardCreate_of holder daily monthly =
     \<lparr>cc_card_holder_name = holder,
      cc_daily_limit = with_default (Finite 5000) daily,
      cc_monthly_limit = with_default (Finite 50000) monthly\<rparr>"

text \<open>
  \<open>VirtualCard(...)\<close>: the limits are declared \<open>float\<close>, so \<open>None\<close> fails pydantic's
  validation. Identifier, number, CVV, expiry date and creation time come from
  \<open>uuid4\<close> and the clock.
\<close>

record card_gen =
  gen_card_id :: string
  gen_card_number :: string
  gen_cvv :: string
  gen_expiry_date :: string
  gen_created_at :: datetime

definition new_VirtualCard ::
  "card_gen \<Rightarrow> string \<Rightarrow> string \<Rightarrow> double option \<Rightarrow> double option \<Rightarrow> error + VirtualCard" where
  "new_VirtualCard g uid holder daily monthly =
     (case daily of
        None \<Rightarrow> Inl ValidationError
      | Some d \<Rightarrow>
         (case monthly of
            None \<Rightarrow> Inl ValidationError
          | Some m \<Rightarrow>
             Inr \<lparr>card_id = gen_card_id g, card_user_id = uid,
                  card_number = gen_card_number g, card_holder_name = holder,
                  cvv = gen_cvv g, expiry_date = gen_expiry_date g,
                  card_status = ''active'', daily_limit = d, monthly_limit = m,
                  daily_spent = Finite 0, monthly_spent = Finite 0,
                  card_created_at = gen_created_at g, blocked_at = None\<rparr>))"

definition create_card ::
  "card_gen \<Rightarrow> CardCreate \<Rightarrow> User \<Rightarrow> database \<Rightarrow> (error + VirtualCard) \<times> database" where
  "create_card g card_data current_user db =
    (if kyc_status current_user \<noteq> ''approved''
     then (Inl (HTTPException 400 ''KYC approval required for card creation''), db)
     else
       (case new_VirtualCard g (u_id current_user) (cc_card_holder_name card_data)
               (cc_daily_limit card_data) (cc_monthly_limit card_data) of
          Inl e \<Rightarrow> (Inl e, db)
        | Inr card' \<Rightarrow> (Inr card', db\<lparr>virtual_cards := insert_one card' (virtual_cards db)\<rparr>)))"

subsection \<open>review_kyc\<close>

text \<open>The request body \<open>action\<close> is a \<open>Dict[str, str]\<close>.\<close>

definition set_review :: "string \<Rightarrow> datetime \<Rightarrow> string \<Rightarrow> string \<Rightarrow> KYCDocument \<Rightarrow> KYCDocument" where
  "set_review status now reviewer notes d =
     d\<lparr>kyc_doc_status := status, reviewed_at := Some now,
       reviewer_id := Some reviewer, reviewer_notes := Some notes\<rparr>"

definition review_kyc ::
  "datetime \<Rightarrow> string \<Rightarrow> (string \<rightharpoonup> string) \<Rightarrow> User \<Rightarrow> database
    \<Rightarrow> (error + (string \<times> string) list) \<times> database" where
  "review_kyc now kyc_id' action current_user db =
    (let notes = (case action ''notes'' of None \<Rightarrow> [] | Some n \<Rightarrow> n) in
     case action ''status'' of
       None \<Rightarrow> (Inl (HTTPException 400 ''Invalid status''), db)
     | Some status \<Rightarrow>
        if status \<notin> set [''approved'', ''rejected'']
        then (Inl (HTTPException 400 ''Invalid status''), db)
        else
          let matched = matched_count (\<lambda>d. kyc_id d = kyc_id') (kyc_documents db);
              db1 = db\<lparr>kyc_documents :=
                      update_one (\<lambda>d. kyc_id d = kyc_id')
                        (set_review status now (u_id current_user) notes) (kyc_documents db)\<rparr>
          in if matched = 0
             then (Inl (HTTPException 404 ''KYC document not found''), db1)
             else
               (case find_one (\<lambda>d. kyc_id d = kyc_id') (kyc_documents db1) of
                  None \<Rightarrow> (Inr [(''message'', ''KYC '' @ status @ '' successfully'')], db1)
                | Some kyc_doc \<Rightarrow>
                   (Inr [(''message'', ''KYC '' @ status @ '' successfully'')],
                    db1\<lparr>users :=
                      update_one (\<lambda>u. u_id u = kyc_user_id kyc_doc)
                        (\<lambda>u. u\<lparr>kyc_status := status\<rparr>) (users db1)\<rparr>)))"

subsection \<open>The accounts of a reachable state\<close>

text \<open>
  \<open>register\<close> is the only operation that inserts an account. It gives the account a
  fresh user id and the e-mail as key, after checking that no stored user has this
  e-mail: owners and keys of accounts are pairwise different, and every key is the e-mail
  of a stored user.
\<close>

definition unique_accounts :: "database \<Rightarrow> bool" where
  "unique_accounts db \<longleftrightarrow>
     distinct (map acc_user_id (pix_accounts db)) \<and>
     distinct (map pix_key (pix_accounts db)) \<and>
     set (map pix_key (pix_accounts db)) \<subseteq> set (map email (users db))"

section \<open>Example data\<close>

text \<open>Concrete users, accounts and requests at which the theorems below are instantiated.\<close>

definition empty_database :: database where
  "empty_database = \<lparr>users = [], kyc_documents = [], pix_accounts = [],
                      pix_transactions = [], virtual_cards = []\<rparr>"

definition alice_create :: UserCreate where
  "alice_create = \<lparr>uc_email = ''alice@example.com'', uc_password = ''pw-a'',
                    uc_full_name = ''Alice'', uc_phone = None\<rparr>"

definition bob_create :: UserCreate where
  "bob_create = \<lparr>uc_email = ''bob@example.com'', uc_password = ''pw-b'',
                  uc_full_name = ''Bob'', uc_phone = None\<rparr>"

definition alice :: User where
  "alice = \<lparr>u_id = ''u-alice'', email = ''alice@example.com'', full_name = ''Alice'',
             phone = None, kyc_status = ''pending'', is_active = True, u_created_at = 1,
             google_id = None\<rparr>"

definition bob :: User where
  "bob = \<lparr>u_id = ''u-bob'', email = ''bob@example.com'', full_name = ''Bob'',
           phone = None, kyc_status = ''pending'', is_active = True, u_created_at = 2,
           google_id = None\<rparr>"

text \<open>The database after Alice and Bob have registered, in this order.\<close>

definition registered_db :: database where
  "registered_db =
     snd (register ''u-bob'' 2 ''hash-b'' ''a-bob'' 2 bob_create
       (snd (register ''u-alice'' 1 ''hash-a'' ''a-alice'' 1 alice_create empty_database)))"

definition account_with :: "string \<Rightarrow> string \<Rightarrow> string \<Rightarrow> double \<Rightarrow> PIXAccount" where
  "account_with aid uid key b =
     \<lparr>acc_id = aid, acc_user_id = uid, pix_key = key, pix_key_type = ''email'',
      account_type = ''checking'', balance = b, acc_is_active = True, acc_created_at = 1\<rparr>"

definition transaction_with :: "string \<Rightarrow> string \<Rightarrow> string \<Rightarrow> double \<Rightarrow> datetime \<Rightarrow> PIXTransaction" where
  "transaction_with tid from_uid to_uid a t =
     \<lparr>tx_id = tid, from_user_id = Some from_uid, to_user_id = Some to_uid,
      from_pix_key = None, to_pix_key = ''key'', amount = a, description = None,
      transaction_type = ''send'', tx_status = ''completed'', qr_code = None,
      tx_created_at = t, completed_at = Some t\<rparr>"

definition bob_kyc :: KYCDocument where
  "bob_kyc = \<lparr>kyc_id = ''k-bob'', kyc_user_id = ''u-bob'', document_type = ''cpf'',
               document_number = ''12345678901'', document_image = ''img'',
               selfie_image = ''selfie'', ocr_data = None, ai_analysis = None,
               kyc_doc_status = ''analyzing'', submitted_at = 3, reviewed_at = None,
               reviewer_id = None, reviewer_notes = None\<rparr>"

text \<open>
  A later state: Alice holds 100, Bob 30 and has a KYC document under analysis; three
  transfers are on record, one of them between two other users.
\<close>

definition example_db :: database where
  "example_db =
     \<lparr>users = [User.extend alice (user_doc.fields ''hash-a''),
               User.extend (bob\<lparr>kyc_status := ''in_review''\<rparr>) (user_doc.fields ''hash-b'')],
      kyc_documents = [bob_kyc],
      pix_accounts = [account_with ''a-alice'' ''u-alice'' ''alice@example.com'' (Finite 100),
                      account_with ''a-bob'' ''u-bob'' ''bob@example.com'' (Finite 30)],
      pix_transactions = [transaction_with ''t1'' ''u-alice'' ''u-bob'' (Finite 30) 5,
                          transaction_with ''t2'' ''u-carol'' ''u-dave'' (Finite 7) 6,
                          transaction_with ''t3'' ''u-bob'' ''u-alice'' (Finite 10) 9],
      virtual_cards = []\<rparr>"

definition transfer_request :: "string \<Rightarrow> double \<Rightarrow> PIXTransfer" where
  "transfer_request key a = \<lparr>tr_to_pix_key = key, tr_amount = a, tr_description = None\<rparr>"

text \<open>
  Two states with large balances: in \<open>rich_db\<close> Alice holds \<open>10^16\<close>, in \<open>wide_db\<close>
  she holds \<open>2^53 + 2\<close>. Both numbers are doubles, and so is every other balance and
  amount of the examples.
\<close>

definition rich_db :: database where
  "rich_db = example_db\<lparr>pix_accounts :=
     [account_with ''a-alice'' ''u-alice'' ''alice@example.com'' (Finite 10000000000000000),
      account_with ''a-bob'' ''u-bob'' ''bob@example.com'' (Finite 30)]\<rparr>"

definition wide_db :: database where
  "wide_db = example_db\<lparr>pix_accounts :=
     [account_with ''a-alice'' ''u-alice'' ''alice@example.com'' (Finite 9007199254740994),
      account_with ''a-bob'' ''u-bob'' ''bob@example.com'' (Finite 30)]\<rparr>"

section \<open>Facts about the collection operations\<close>

lemma find_one_SomeD: "find_one P xs = Some x \<Longrightarrow> P x \<and> x \<in> set xs"
  by (induction xs) (auto split: if_splits)

lemma find_one_None_iff: "find_one P xs = None \<longleftrightarrow> (\<forall>x\<in>set xs. \<not> P x)"
  by (induction xs) auto

lemma find_one_update_one:
  assumes "\<And>x. Q (f x) = Q x"
  shows "find_one Q (update_one P f xs) =
         map_option (\<lambda>y. if find_one P xs = Some y then f y else y) (find_one Q xs)"
proof (induction xs)
  case Nil
  show ?case by simp
next
  case (Cons x xs)
  show ?case
  proof (cases "P x")
    case True
    then show ?thesis
      using assms by (cases "find_one Q xs") (auto dest: find_one_SomeD)
  next
    case False
    then show ?thesis
      using Cons.IH by (cases "find_one Q xs") (auto dest: find_one_SomeD)
  qed
qed

lemma find_one_distinct:
  "distinct (map k xs) \<Longrightarrow> x \<in> set xs \<Longrightarrow> find_one (\<lambda>a. k a = k x) xs = Some x"
  by (induction xs) auto

lemma update_one_update_one:
  assumes "\<And>x. P x \<Longrightarrow> P (f x)"
  shows "update_one P g (update_one P f xs) = update_one P (g \<circ> f) xs"
  using assms by (induction xs) auto

lemma update_one_id:
  assumes "\<And>x. x \<in> set xs \<Longrightarrow> P x \<Longrightarrow> f x = x"
  shows "update_one P f xs = xs"
  using assms by (induction xs) auto

lemma update_one_first_fixed:
  "find_one P xs = Some x \<Longrightarrow> f x = x \<Longrightarrow> update_one P f xs = xs"
  by (induction xs) (auto split: if_splits)

lemma update_one_no_match: "find_one P xs = None \<Longrightarrow> update_one P f xs = xs"
  by (induction xs) (auto split: if_splits)

lemma inc_balance_simps [simp]:
  "acc_user_id (inc_balance d a) = acc_user_id a"
  "pix_key (inc_balance d a) = pix_key a"
  "balance (inc_balance d a) = dadd (balance a) d"
  by (simp_all add: inc_balance_def)

lemmas example_defs = empty_database_def alice_create_def bob_create_def alice_def bob_def
  registered_db_def account_with_def transaction_with_def bob_kyc_def example_db_def
  transfer_request_def rich_db_def wide_db_def

section \<open>Facts about doubles\<close>

text \<open>Rules that evaluate the rounding of a number given by numerals.\<close>

declare log2_floor.simps [simp del]

lemma log2_floor_numeral [simp]:
  "log2_floor (numeral k) =
     (if numeral k < (2::nat) then 0 else Suc (log2_floor (numeral k div 2)))"
  "log2_floor 0 = 0"
  "log2_floor (Suc 0) = 0"
  by (simp_all add: log2_floor.simps [of "numeral k"] log2_floor.simps [of 0]
      log2_floor.simps [of "Suc 0"])

lemmas double_eval = round_double_def exponent_def pow2_def round_half_even_def
  log2_ceil_def is_double_def Let_def

lemma dadd_zero [simp]: "dadd x (Finite 0) = x" "dadd (Finite 0) x = x"
  by (cases x; simp)+

lemma dneg_zero [simp]: "dneg (Finite 0) = Finite 0"
  by simp

lemma dadd_exact:
  assumes "round_double (x + y) = Finite (x + y)"
  shows "dadd (Finite x) (Finite y) = Finite (x + y)"
  using assms by simp

text \<open>
  Subtracting and adding back returns to \<open>b\<close> when \<open>b\<close> is a double and the difference
  is exact.
\<close>

lemma round_double_zero [simp]: "round_double 0 = Finite 0"
  by (simp add: round_double_def)

lemma dadd_dneg_back:
  assumes "round_double b = Finite b" and "round_double (b - a) = Finite (b - a)"
  shows "dadd (dadd (Finite b) (dneg (Finite a))) (Finite a) = Finite b"
proof (cases "a = 0")
  case True
  then show ?thesis by simp
next
  case a: False
  show ?thesis
  proof (cases "b = 0")
    case True
    with a show ?thesis by simp
  next
    case False
    with a assms show ?thesis by simp
  qed
qed

section \<open>pix_transfer\<close>

text \<open>The state and the response of a transfer that passes its three checks.\<close>

lemma pix_transfer_success:
  assumes "find_one (\<lambda>a. acc_user_id a = u_id current_user) (pix_accounts db) = Some sender_account"
      and "\<not> dless (balance sender_account) (tr_amount transfer_data)"
      and "find_one (\<lambda>a. pix_key a = tr_to_pix_key transfer_data) (pix_accounts db) = Some recipient_account"
  shows "pix_transfer new_id now_created now_completed transfer_data current_user db =
     (Inr [(''message'', ''Transfer completed successfully''), (''transaction_id'', new_id)],
      db\<lparr>pix_transactions := pix_transactions db @
            [\<lparr>tx_id = new_id, from_user_id = Some (u_id current_user),
               to_user_id = Some (acc_user_id recipient_account),
               from_pix_key = Some (pix_key sender_account),
               to_pix_key = tr_to_pix_key transfer_data,
               amount = tr_amount transfer_data,
               description = tr_description transfer_data,
               transaction_type = ''send'', tx_status = ''completed'',
               qr_code = None, tx_created_at = now_created,
               completed_at = Some now_completed\<rparr>],
         pix_accounts :=
            update_one (\<lambda>a. acc_user_id a = acc_user_id recipient_account)
              (inc_balance (tr_amount transfer_data))
              (update_one (\<lambda>a. acc_user_id a = u_id current_user)
                 (inc_balance (dneg (tr_amount transfer_data))) (pix_accounts db))\<rparr>)"
  using assms by (simp add: pix_transfer_def insert_one_def Let_def)

text \<open>
  C1, as stated, fails: balances are doubles and \<open>$inc\<close> rounds. In \<open>rich_db\<close> Alice
  holds \<open>10^16\<close> and Bob 30. Alice's transfer of 1 to Bob completes; her balance is
  still \<open>10^16\<close>, Bob's is 31: the sender's balance has not decreased and the sum of the
  two balances has grown by 1. All three numbers are doubles.
\<close>

theorem transfer_rounding_creates_money:
  "is_double (Finite 10000000000000000) \<and> is_double (Finite 30) \<and> is_double (Finite 1) \<and>
   distinct (map acc_user_id (pix_accounts rich_db)) \<and>
   map balance (pix_accounts rich_db) = [Finite 10000000000000000, Finite 30] \<and>
   fst (pix_transfer ''t9'' 10 10 (transfer_request ''bob@example.com'' (Finite 1)) alice rich_db)
     = Inr [(''message'', ''Transfer completed successfully''), (''transaction_id'', ''t9'')] \<and>
   map balance (pix_accounts
       (snd (pix_transfer ''t9'' 10 10 (transfer_request ''bob@example.com'' (Finite 1)) alice rich_db)))
     = [Finite 10000000000000000, Finite 31]"
  by (simp add: example_defs pix_transfer_def insert_one_def inc_balance_def double_eval)

text \<open>
  C1, amended. In a database whose accounts have pairwise different owners, after a
  successful transfer between two different accounts the sender's balance is the double sum
  of its old balance and the negated amount, and the recipient's balance is the double sum
  of its old balance and the amount (both rounded to nearest, ties to even). Whenever
  neither sum is rounded, the sender's balance has decreased by exactly the amount, the
  recipient's has increased by exactly the amount, and the sum of the two balances is the
  same as before. The sender's account is the one found under the caller's user id, the
  recipient's the one found under the requested key, before and after the transfer.
\<close>

theorem transfer_moves_rounded_amount:
  assumes wf: "distinct (map acc_user_id (pix_accounts db))"
      and ok: "pix_transfer new_id now_created now_completed transfer_data current_user db = (Inr resp, db')"
      and snd: "find_one (\<lambda>a. acc_user_id a = u_id current_user) (pix_accounts db) = Some sender_account"
      and rcp: "find_one (\<lambda>a. pix_key a = tr_to_pix_key transfer_data) (pix_accounts db) = Some recipient_account"
      and neq: "acc_user_id recipient_account \<noteq> u_id current_user"
  shows "\<exists>sender_after recipient_after.
           find_one (\<lambda>a. acc_user_id a = u_id current_user) (pix_accounts db') = Some sender_after \<and>
           find_one (\<lambda>a. pix_key a = tr_to_pix_key transfer_data) (pix_accounts db') = Some recipient_after \<and>
           balance sender_after = dadd (balance sender_account) (dneg (tr_amount transfer_data)) \<and>
           balance recipient_after = dadd (balance recipient_account) (tr_amount transfer_data) \<and>
           (\<forall>b r a.
              balance sender_account = Finite b \<and> balance recipient_account = Finite r \<and>
              tr_amount transfer_data = Finite a \<and>
              round_double (b - a) = Finite (b - a) \<and> round_double (r + a) = Finite (r + a) \<longrightarrow>
              balance sender_after = Finite (b - a) \<and> balance recipient_after = Finite (r + a) \<and>
              (b - a) + (r + a) = b + r)"
proof -
  let ?Ps = "\<lambda>a. acc_user_id a = u_id current_user"
  let ?Pr = "\<lambda>a. acc_user_id a = acc_user_id recipient_account"
  let ?K = "\<lambda>a. pix_key a = tr_to_pix_key transfer_data"
  let ?fs = "inc_balance (dneg (tr_amount transfer_data))"
  let ?fr = "inc_balance (tr_amount transfer_data)"
  let ?accs = "pix_accounts db"
  let ?accs1 = "update_one ?Ps ?fs ?accs"
  have nb: "\<not> dless (balance sender_account) (tr_amount transfer_data)"
    using ok snd by (auto simp: pix_transfer_def split: if_splits)
  have db': "pix_accounts db' = update_one ?Pr ?fr ?accs1"
    using ok pix_transfer_success [OF snd nb rcp, of new_id now_created now_completed] by auto
  have s_uid: "acc_user_id sender_account = u_id current_user"
    using find_one_SomeD [OF snd] by simp
  have r_in: "recipient_account \<in> set ?accs"
    using find_one_SomeD [OF rcp] by simp
  have s_ne_r: "sender_account \<noteq> recipient_account"
    using s_uid neq by auto
  have r_first: "find_one ?Pr ?accs = Some recipient_account"
    using find_one_distinct [OF wf r_in] .
  have s1: "find_one ?Ps ?accs1 = Some (?fs sender_account)"
    by (simp add: find_one_update_one snd)
  have r1: "find_one ?Pr ?accs1 = Some recipient_account"
    using s_ne_r by (simp add: find_one_update_one snd r_first)
  have k1: "find_one ?K ?accs1 = Some recipient_account"
    using s_ne_r by (simp add: find_one_update_one snd rcp)
  have s2: "find_one ?Ps (pix_accounts db') = Some (?fs sender_account)"
    using neq s_uid by (auto simp add: db' find_one_update_one s1 r1)
  have k2: "find_one ?K (pix_accounts db') = Some (?fr recipient_account)"
    by (simp add: db' find_one_update_one k1 r1)
  have exact: "\<forall>b r a.
      balance sender_account = Finite b \<and> balance recipient_account = Finite r \<and>
      tr_amount transfer_data = Finite a \<and>
      round_double (b - a) = Finite (b - a) \<and> round_double (r + a) = Finite (r + a) \<longrightarrow>
      balance (?fs sender_account) = Finite (b - a) \<and>
      balance (?fr recipient_account) = Finite (r + a) \<and>
      (b - a) + (r + a) = b + r"
    by (simp add: dadd_exact)
  show ?thesis
    using s2 k2 exact
    by (intro exI [of _ "?fs sender_account"] exI [of _ "?fr recipient_account"]) simp
qed

text \<open>
  Alice (balance 100) sends 40 to Bob (balance 30): neither sum is rounded, afterwards
  Alice holds 60 and Bob 70.
\<close>

theorem transfer_moves_rounded_amount_witness:
  "distinct (map acc_user_id (pix_accounts example_db)) \<and>
   round_double (100 - 40) = Finite (100 - 40) \<and> round_double (30 + 40) = Finite (30 + 40) \<and>
   (\<exists>sender_after recipient_after.
      find_one (\<lambda>a. acc_user_id a = ''u-alice'')
        (pix_accounts (snd (pix_transfer ''t9'' 10 10 (transfer_request ''bob@example.com'' (Finite 40))
           alice example_db))) = Some sender_after \<and>
      find_one (\<lambda>a. pix_key a = ''bob@example.com'')
        (pix_accounts (snd (pix_transfer ''t9'' 10 10 (transfer_request ''bob@example.com'' (Finite 40))
           alice example_db))) = Some recipient_after \<and>
      balance sender_after = Finite 60 \<and> balance recipient_after = Finite 70)"
proof -
  let ?r = "pix_transfer ''t9'' 10 10 (transfer_request ''bob@example.com'' (Finite 40)) alice example_db"
  let ?a = "account_with ''a-alice'' ''u-alice'' ''alice@example.com'' (Finite 100)"
  let ?b = "account_with ''a-bob'' ''u-bob'' ''bob@example.com'' (Finite 30)"
  have h1: "distinct (map acc_user_id (pix_accounts example_db))"
    by (simp add: example_defs)
  have h2: "?r = (Inr [(''message'', ''Transfer completed successfully''),
                       (''transaction_id'', ''t9'')], snd ?r)"
    by (simp add: example_defs pix_transfer_def insert_one_def Let_def)
  have h3: "find_one (\<lambda>a. acc_user_id a = u_id alice) (pix_accounts example_db) = Some ?a"
    by (simp add: example_defs)
  have h4: "find_one (\<lambda>a. pix_key a = tr_to_pix_key (transfer_request ''bob@example.com'' (Finite 40)))
              (pix_accounts example_db) = Some ?b"
    by (simp add: example_defs)
  have h5: "acc_user_id ?b \<noteq> u_id alice"
    by (simp add: example_defs)
  have e1: "round_double (100 - 40) = Finite (100 - 40)"
    by (simp add: double_eval)
  have e2: "round_double (30 + 40) = Finite (30 + 40)"
    by (simp add: double_eval)
  have u: "u_id alice = ''u-alice''"
    and k: "tr_to_pix_key (transfer_request ''bob@example.com'' (Finite 40)) = ''bob@example.com''"
    and fields: "balance ?a = Finite 100" "balance ?b = Finite 30"
      "tr_amount (transfer_request ''bob@example.com'' (Finite 40)) = Finite 40"
    by (simp_all add: example_defs)
  from transfer_moves_rounded_amount [OF h1 h2 h3 h4 h5]
  obtain sa ra where
    sa: "find_one (\<lambda>a. acc_user_id a = ''u-alice'') (pix_accounts (snd ?r)) = Some sa"
    and ra: "find_one (\<lambda>a. pix_key a = ''bob@example.com'') (pix_accounts (snd ?r)) = Some ra"
    and ex: "\<forall>b r a.
              balance ?a = Finite b \<and> balance ?b = Finite r \<and>
              tr_amount (transfer_request ''bob@example.com'' (Finite 40)) = Finite a \<and>
              round_double (b - a) = Finite (b - a) \<and> round_double (r + a) = Finite (r + a) \<longrightarrow>
              balance sa = Finite (b - a) \<and> balance ra = Finite (r + a) \<and>
              (b - a) + (r + a) = b + r"
    unfolding u k by blast
  from ex fields e1 e2 have "balance sa = Finite (100 - 40) \<and> balance ra = Finite (30 + 40)"
    by blast
  then have "balance sa = Finite 60 \<and> balance ra = Finite 70" by simp
  then show ?thesis
    using h1 e1 e2 sa ra by blast
qed

text \<open>
  C2. The claim is that no balance is negative after a completed transfer, from account
  creation on. The check of \<open>pix_transfer\<close> compares the sender's balance with the
  amount and nothing looks at the sign of the amount: after Alice and Bob have registered
  (both balances 0), Alice's transfer of -50 to Bob's key completes, and Bob's balance
  is -50.
\<close>

theorem negative_amount_overdraws_recipient:
  "fst (pix_transfer ''t9'' 3 3 (transfer_request ''bob@example.com'' (Finite (- 50))) alice registered_db)
     = Inr [(''message'', ''Transfer completed successfully''), (''transaction_id'', ''t9'')] \<and>
   map balance (pix_accounts registered_db) = [Finite 0, Finite 0] \<and>
   map balance (pix_accounts
       (snd (pix_transfer ''t9'' 3 3 (transfer_request ''bob@example.com'' (Finite (- 50))) alice registered_db)))
     = [Finite 50, Finite (- 50)]"
  by (simp add: example_defs register_def pix_transfer_def insert_one_def inc_balance_def Let_def)

text \<open>
  C3, as stated, fails: a transfer of amount 0 (which is \<open>\<le> 0\<close>) from Alice to Bob's key,
  right after both registered, is not rejected. It completes.
\<close>

theorem zero_amount_transfer_accepted:
  "\<not> dless (Finite 0) (tr_amount (transfer_request ''bob@example.com'' (Finite 0))) \<and>
   fst (pix_transfer ''t9'' 3 3 (transfer_request ''bob@example.com'' (Finite 0)) alice registered_db)
     = Inr [(''message'', ''Transfer completed successfully''), (''transaction_id'', ''t9'')]"
  by (simp add: example_defs register_def pix_transfer_def insert_one_def inc_balance_def Let_def)

text \<open>
  C3, amended. \<open>pix_transfer\<close> has no check of the amount's sign. It answers 400
  "Insufficient balance", and changes nothing, whenever the sender's account holds less
  than the amount (whatever the sign of the amount). A transfer of amount 0 by a sender
  whose balance is not negative, to a key that names an account, is accepted: it records
  one completed transaction of amount 0 and changes no account.
\<close>

theorem transfer_bad_request_is_insufficient_balance:
  "(\<forall>sender_account.
      find_one (\<lambda>a. acc_user_id a = u_id current_user) (pix_accounts db) = Some sender_account \<and>
      dless (balance sender_account) (tr_amount transfer_data) \<longrightarrow>
      pix_transfer new_id now_created now_completed transfer_data current_user db
        = (Inl (HTTPException 400 ''Insufficient balance''), db)) \<and>
   (\<forall>sender_account recipient_account.
      find_one (\<lambda>a. acc_user_id a = u_id current_user) (pix_accounts db) = Some sender_account \<and>
      find_one (\<lambda>a. pix_key a = tr_to_pix_key transfer_data) (pix_accounts db) = Some recipient_account \<and>
      tr_amount transfer_data = Finite 0 \<and> \<not> dless (balance sender_account) (Finite 0) \<longrightarrow>
      (\<exists>transaction.
         pix_transfer new_id now_created now_completed transfer_data current_user db =
           (Inr [(''message'', ''Transfer completed successfully''), (''transaction_id'', new_id)],
            db\<lparr>pix_transactions := pix_transactions db @ [transaction]\<rparr>) \<and>
         tx_status transaction = ''completed'' \<and> amount transaction = Finite 0))"
proof (intro conjI allI impI)
  fix sender_account
  assume "find_one (\<lambda>a. acc_user_id a = u_id current_user) (pix_accounts db) = Some sender_account \<and>
      dless (balance sender_account) (tr_amount transfer_data)"
  then show "pix_transfer new_id now_created now_completed transfer_data current_user db
        = (Inl (HTTPException 400 ''Insufficient balance''), db)"
    by (simp add: pix_transfer_def)
next
  fix sender_account recipient_account
  assume a: "find_one (\<lambda>a. acc_user_id a = u_id current_user) (pix_accounts db) = Some sender_account \<and>
      find_one (\<lambda>a. pix_key a = tr_to_pix_key transfer_data) (pix_accounts db) = Some recipient_account \<and>
      tr_amount transfer_data = Finite 0 \<and> \<not> dless (balance sender_account) (Finite 0)"
  have same: "\<And>P. update_one P (inc_balance (Finite 0))
      (update_one (\<lambda>a. acc_user_id a = u_id current_user) (inc_balance (Finite 0)) (pix_accounts db))
        = pix_accounts db"
    by (simp add: update_one_id inc_balance_def)
  from a have nb: "\<not> dless (balance sender_account) (tr_amount transfer_data)" by simp
  show "\<exists>transaction.
         pix_transfer new_id now_created now_completed transfer_data current_user db =
           (Inr [(''message'', ''Transfer completed successfully''), (''transaction_id'', new_id)],
            db\<lparr>pix_transactions := pix_transactions db @ [transaction]\<rparr>) \<and>
         tx_status transaction = ''completed'' \<and> amount transaction = Finite 0"
    using a nb pix_transfer_success [of current_user db sender_account transfer_data
        recipient_account new_id now_created now_completed]
    by (intro exI [of _ "\<lparr>tx_id = new_id, from_user_id = Some (u_id current_user),
               to_user_id = Some (acc_user_id recipient_account),
               from_pix_key = Some (pix_key sender_account),
               to_pix_key = tr_to_pix_key transfer_data,
               amount = tr_amount transfer_data,
               description = tr_description transfer_data,
               transaction_type = ''send'', tx_status = ''completed'',
               qr_code = None, tx_created_at = now_created,
               completed_at = Some now_completed\<rparr>"])
       (simp add: same)
qed

text \<open>
  Alice (balance 100) asking for 500 gets 400 "Insufficient balance"; her zero-amount
  transfer to Bob's key is recorded and moves nothing.
\<close>

theorem transfer_bad_request_is_insufficient_balance_witness:
  "pix_transfer ''t9'' 10 10 (transfer_request ''bob@example.com'' (Finite 500)) alice example_db
     = (Inl (HTTPException 400 ''Insufficient balance''), example_db) \<and>
   (\<exists>transaction.
      pix_transfer ''t9'' 10 10 (transfer_request ''bob@example.com'' (Finite 0)) alice example_db
        = (Inr [(''message'', ''Transfer completed successfully''), (''transaction_id'', ''t9'')],
           example_db\<lparr>pix_transactions := pix_transactions example_db @ [transaction]\<rparr>) \<and>
      tx_status transaction = ''completed'' \<and> amount transaction = Finite 0)"
proof -
  let ?a = "account_with ''a-alice'' ''u-alice'' ''alice@example.com'' (Finite 100)"
  let ?b = "account_with ''a-bob'' ''u-bob'' ''bob@example.com'' (Finite 30)"
  have s: "find_one (\<lambda>a. acc_user_id a = u_id alice) (pix_accounts example_db) = Some ?a"
    by (simp add: example_defs)
  have low: "dless (balance ?a) (tr_amount (transfer_request ''bob@example.com'' (Finite 500)))"
    by (simp add: example_defs)
  have r: "find_one (\<lambda>a. pix_key a = tr_to_pix_key (transfer_request ''bob@example.com'' (Finite 0)))
             (pix_accounts example_db) = Some ?b"
    by (simp add: example_defs)
  have z: "tr_amount (transfer_request ''bob@example.com'' (Finite 0)) = Finite 0 \<and>
           \<not> dless (balance ?a) (Finite 0)"
    by (simp add: example_defs)
  show ?thesis
    using s low r z
      transfer_bad_request_is_insufficient_balance
        [of alice example_db "transfer_request ''bob@example.com'' (Finite 500)" "''t9''" 10 10]
      transfer_bad_request_is_insufficient_balance
        [of alice example_db "transfer_request ''bob@example.com'' (Finite 0)" "''t9''" 10 10]
    by blast
qed

text \<open>
  C4. Each of the three failure paths of \<open>pix_transfer\<close> (the sender has no account,
  the sender's balance is below the amount, no account has the requested key) returns its
  error together with the database it was given: no transaction is inserted and no
  balance changes. Whenever the operation returns an error at all, the database is the
  one it was given. In particular an amount above the sender's balance gives 400
  "Insufficient balance" and the unchanged database.
\<close>

theorem transfer_failure_changes_nothing:
  "(find_one (\<lambda>a. acc_user_id a = u_id current_user) (pix_accounts db) = None \<longrightarrow>
      pix_transfer new_id now_created now_completed transfer_data current_user db = (Inl (HTTPException 404 ''PIX account not found''), db)) \<and>
   (\<forall>sender_account.
      find_one (\<lambda>a. acc_user_id a = u_id current_user) (pix_accounts db) = Some sender_account \<and>
      dless (balance sender_account) (tr_amount transfer_data) \<longrightarrow>
      pix_transfer new_id now_created now_completed transfer_data current_user db = (Inl (HTTPException 400 ''Insufficient balance''), db)) \<and>
   (\<forall>sender_account.
      find_one (\<lambda>a. acc_user_id a = u_id current_user) (pix_accounts db) = Some sender_account \<and>
      \<not> dless (balance sender_account) (tr_amount transfer_data) \<and>
      find_one (\<lambda>a. pix_key a = tr_to_pix_key transfer_data) (pix_accounts db) = None \<longrightarrow>
      pix_transfer new_id now_created now_completed transfer_data current_user db = (Inl (HTTPException 404 ''Recipient not found''), db)) \<and>
   (\<forall>e. fst (pix_transfer new_id now_created now_completed transfer_data current_user db) = Inl e \<longrightarrow>
      snd (pix_transfer new_id now_created now_completed transfer_data current_user db) = db \<and>
      pix_transactions (snd (pix_transfer new_id now_created now_completed transfer_data current_user db)) = pix_transactions db \<and>
      pix_accounts (snd (pix_transfer new_id now_created now_completed transfer_data current_user db)) = pix_accounts db)"
  by (auto simp add: pix_transfer_def Let_def split: option.splits)

text \<open>
  A caller without an account, Alice asking for more than her 100, and Alice sending to a
  key nobody holds: each request fails and returns \<open>example_db\<close> as it was.
\<close>

theorem transfer_failure_changes_nothing_witness:
  "pix_transfer ''t9'' 10 10 (transfer_request ''bob@example.com'' (Finite 5))
       (alice\<lparr>u_id := ''u-carol''\<rparr>) example_db
     = (Inl (HTTPException 404 ''PIX account not found''), example_db) \<and>
   pix_transfer ''t9'' 10 10 (transfer_request ''bob@example.com'' (Finite 500)) alice example_db
     = (Inl (HTTPException 400 ''Insufficient balance''), example_db) \<and>
   pix_transfer ''t9'' 10 10 (transfer_request ''nobody@example.com'' (Finite 5)) alice example_db
     = (Inl (HTTPException 404 ''Recipient not found''), example_db)"
proof -
  let ?a = "account_with ''a-alice'' ''u-alice'' ''alice@example.com'' (Finite 100)"
  have none: "find_one (\<lambda>a. acc_user_id a = u_id (alice\<lparr>u_id := ''u-carol''\<rparr>))
                (pix_accounts example_db) = None"
    by (simp add: example_defs)
  have s: "find_one (\<lambda>a. acc_user_id a = u_id alice) (pix_accounts example_db) = Some ?a"
    by (simp add: example_defs)
  have low: "dless (balance ?a) (tr_amount (transfer_request ''bob@example.com'' (Finite 500)))"
    by (simp add: example_defs)
  have enough: "\<not> dless (balance ?a) (tr_amount (transfer_request ''nobody@example.com'' (Finite 5)))"
    by (simp add: example_defs)
  have nokey: "find_one (\<lambda>a. pix_key a = tr_to_pix_key (transfer_request ''nobody@example.com'' (Finite 5)))
                 (pix_accounts example_db) = None"
    by (simp add: example_defs)
  show ?thesis
    using none s low enough nokey
      transfer_failure_changes_nothing
        [of "alice\<lparr>u_id := ''u-carol''\<rparr>" example_db "''t9''" 10 10
            "transfer_request ''bob@example.com'' (Finite 5)"]
      transfer_failure_changes_nothing
        [of alice example_db "''t9''" 10 10 "transfer_request ''bob@example.com'' (Finite 500)"]
      transfer_failure_changes_nothing
        [of alice example_db "''t9''" 10 10 "transfer_request ''nobody@example.com'' (Finite 5)"]
    by blast
qed

text \<open>
  C10. The balance check comes before the recipient lookup: when the sender's account
  holds less than the amount and no account has the requested key, the answer is 400
  "Insufficient balance" and not 404 "Recipient not found".
\<close>

theorem insufficient_balance_before_recipient_lookup:
  assumes "find_one (\<lambda>a. acc_user_id a = u_id current_user) (pix_accounts db) = Some sender_account"
      and "dless (balance sender_account) (tr_amount transfer_data)"
      and "find_one (\<lambda>a. pix_key a = tr_to_pix_key transfer_data) (pix_accounts db) = None"
  shows "fst (pix_transfer new_id now_created now_completed transfer_data current_user db) = Inl (HTTPException 400 ''Insufficient balance'') \<and>
         fst (pix_transfer new_id now_created now_completed transfer_data current_user db) \<noteq> Inl (HTTPException 404 ''Recipient not found'')"
  using assms by (simp add: pix_transfer_def)

text \<open>Alice (balance 100) sends 500 to a key nobody holds.\<close>

theorem insufficient_balance_before_recipient_lookup_witness:
  "fst (pix_transfer ''t9'' 10 10 (transfer_request ''nobody@example.com'' (Finite 500)) alice example_db)
     = Inl (HTTPException 400 ''Insufficient balance'') \<and>
   fst (pix_transfer ''t9'' 10 10 (transfer_request ''nobody@example.com'' (Finite 500)) alice example_db)
     \<noteq> Inl (HTTPException 404 ''Recipient not found'')"
proof -
  let ?a = "account_with ''a-alice'' ''u-alice'' ''alice@example.com'' (Finite 100)"
  have s: "find_one (\<lambda>a. acc_user_id a = u_id alice) (pix_accounts example_db) = Some ?a"
    by (simp add: example_defs)
  have low: "dless (balance ?a) (tr_amount (transfer_request ''nobody@example.com'' (Finite 500)))"
    by (simp add: example_defs)
  have nokey: "find_one (\<lambda>a. pix_key a = tr_to_pix_key (transfer_request ''nobody@example.com'' (Finite 500)))
                 (pix_accounts example_db) = None"
    by (simp add: example_defs)
  show ?thesis
    by (rule insufficient_balance_before_recipient_lookup [OF s low nokey])
qed

text \<open>
  C9, as stated, fails in its last part: the two \<open>$inc\<close> are rounded. In \<open>wide_db\<close>
  Alice holds \<open>2^53 + 2\<close>. Her transfer of 1 to her own key completes and records the
  transaction, and her balance is \<open>2^53\<close> afterwards: it has dropped by 2. Balance and
  amount are doubles, and \<open>balance \<ge> amount > 0\<close>.
\<close>

theorem self_transfer_changes_balance:
  "is_double (Finite 9007199254740994) \<and> is_double (Finite 1) \<and>
   dless (Finite 0) (Finite 1) \<and> \<not> dless (Finite 9007199254740994) (Finite 1) \<and>
   distinct (map pix_key (pix_accounts wide_db)) \<and>
   map balance (pix_accounts wide_db) = [Finite 9007199254740994, Finite 30] \<and>
   fst (pix_transfer ''t9'' 10 10 (transfer_request ''alice@example.com'' (Finite 1)) alice wide_db)
     = Inr [(''message'', ''Transfer completed successfully''), (''transaction_id'', ''t9'')] \<and>
   map balance (pix_accounts
       (snd (pix_transfer ''t9'' 10 10 (transfer_request ''alice@example.com'' (Finite 1)) alice wide_db)))
     = [Finite 9007199254740992, Finite 30]"
  by (simp add: example_defs pix_transfer_def insert_one_def inc_balance_def double_eval)

text \<open>
  C9, amended. There is no self-transfer guard. In a database whose accounts have pairwise
  different keys, a sender who names the own key and holds at least the amount, the amount
  being positive, gets the success response; exactly one transaction is appended,
  completed, for that amount, from and to the sender. No other account changes, and the
  sender's balance becomes the double sum of the amount and of the double sum of the old
  balance and the negated amount. When the old balance is a double and the difference of
  balance and amount is not rounded, the accounts are the ones before: the sender's
  balance is unchanged.
\<close>

theorem self_transfer_accepted:
  assumes keys: "distinct (map pix_key (pix_accounts db))"
      and snd: "find_one (\<lambda>a. acc_user_id a = u_id current_user) (pix_accounts db) = Some sender_account"
      and self: "tr_to_pix_key transfer_data = pix_key sender_account"
      and pos: "dless (Finite 0) (tr_amount transfer_data)"
      and enough: "\<not> dless (balance sender_account) (tr_amount transfer_data)"
  shows "\<exists>transaction.
           pix_transfer new_id now_created now_completed transfer_data current_user db =
             (Inr [(''message'', ''Transfer completed successfully''), (''transaction_id'', new_id)],
              db\<lparr>pix_transactions := pix_transactions db @ [transaction],
                 pix_accounts :=
                   update_one (\<lambda>a. acc_user_id a = u_id current_user)
                     (\<lambda>a. a\<lparr>balance := dadd (dadd (balance a) (dneg (tr_amount transfer_data))) (tr_amount transfer_data)\<rparr>)
                     (pix_accounts db)\<rparr>) \<and>
           tx_id transaction = new_id \<and>
           tx_status transaction = ''completed'' \<and>
           amount transaction = tr_amount transfer_data \<and>
           from_user_id transaction = Some (u_id current_user) \<and>
           to_user_id transaction = Some (u_id current_user) \<and>
           find_one (\<lambda>a. acc_user_id a = u_id current_user) (pix_accounts (snd (pix_transfer new_id now_created now_completed transfer_data current_user db)))
             = Some (sender_account\<lparr>balance :=
                 dadd (dadd (balance sender_account) (dneg (tr_amount transfer_data)))
                   (tr_amount transfer_data)\<rparr>) \<and>
           (\<forall>b a. balance sender_account = Finite b \<and> tr_amount transfer_data = Finite a \<and>
              round_double b = Finite b \<and> round_double (b - a) = Finite (b - a) \<longrightarrow>
              pix_accounts (snd (pix_transfer new_id now_created now_completed transfer_data current_user db)) = pix_accounts db \<and>
              find_one (\<lambda>a. acc_user_id a = u_id current_user) (pix_accounts (snd (pix_transfer new_id now_created now_completed transfer_data current_user db)))
                = Some sender_account)"
proof -
  let ?Ps = "\<lambda>a. acc_user_id a = u_id current_user"
  let ?fs = "inc_balance (dneg (tr_amount transfer_data))"
  let ?fr = "inc_balance (tr_amount transfer_data)"
  let ?both = "\<lambda>a. a\<lparr>balance := dadd (dadd (balance a) (dneg (tr_amount transfer_data))) (tr_amount transfer_data)\<rparr>"
  let ?tx = "\<lparr>tx_id = new_id, from_user_id = Some (u_id current_user),
               to_user_id = Some (acc_user_id sender_account),
               from_pix_key = Some (pix_key sender_account),
               to_pix_key = tr_to_pix_key transfer_data,
               amount = tr_amount transfer_data,
               description = tr_description transfer_data,
               transaction_type = ''send'', tx_status = ''completed'',
               qr_code = None, tx_created_at = now_created,
               completed_at = Some now_completed\<rparr>"
  have s_uid: "acc_user_id sender_account = u_id current_user"
    and s_in: "sender_account \<in> set (pix_accounts db)"
    using find_one_SomeD [OF snd] by simp_all
  have rcp: "find_one (\<lambda>a. pix_key a = tr_to_pix_key transfer_data) (pix_accounts db) = Some sender_account"
    unfolding self using find_one_distinct [OF keys s_in] .
  have comp: "?fr \<circ> ?fs = ?both"
    by (rule ext) (simp add: inc_balance_def)
  have "update_one ?Ps ?fr (update_one ?Ps ?fs (pix_accounts db))
          = update_one ?Ps (?fr \<circ> ?fs) (pix_accounts db)"
    by (rule update_one_update_one) simp
  then have twice: "update_one ?Ps ?fr (update_one ?Ps ?fs (pix_accounts db))
          = update_one ?Ps ?both (pix_accounts db)"
    unfolding comp .
  have res: "pix_transfer new_id now_created now_completed transfer_data current_user db =
      (Inr [(''message'', ''Transfer completed successfully''), (''transaction_id'', new_id)],
       db\<lparr>pix_transactions := pix_transactions db @ [?tx],
          pix_accounts := update_one ?Ps ?both (pix_accounts db)\<rparr>)"
    using pix_transfer_success [OF snd enough rcp, of new_id now_created now_completed]
    by (simp add: s_uid twice)
  have found: "find_one ?Ps (update_one ?Ps ?both (pix_accounts db)) = Some (?both sender_account)"
    by (simp add: find_one_update_one snd)
  have exact: "\<forall>b a. balance sender_account = Finite b \<and> tr_amount transfer_data = Finite a \<and>
      round_double b = Finite b \<and> round_double (b - a) = Finite (b - a) \<longrightarrow>
      update_one ?Ps ?both (pix_accounts db) = pix_accounts db \<and>
      find_one ?Ps (update_one ?Ps ?both (pix_accounts db)) = Some sender_account"
  proof (intro allI impI)
    fix b a
    assume h: "balance sender_account = Finite b \<and> tr_amount transfer_data = Finite a \<and>
      round_double b = Finite b \<and> round_double (b - a) = Finite (b - a)"
    then have bk: "dadd (dadd (Finite b) (dneg (Finite a))) (Finite a) = Finite b"
      by (intro dadd_dneg_back) simp_all
    have same: "?both sender_account = sender_account"
      using h bk by simp
    have upd: "update_one ?Ps ?both (pix_accounts db) = pix_accounts db"
      using snd same by (rule update_one_first_fixed)
    show "update_one ?Ps ?both (pix_accounts db) = pix_accounts db \<and>
      find_one ?Ps (update_one ?Ps ?both (pix_accounts db)) = Some sender_account"
      using upd snd by simp
  qed
  show ?thesis
    unfolding res using found exact
    by (intro exI [of _ ?tx]) (simp add: s_uid)
qed

text \<open>
  Alice (balance 100) sends 40 to her own key: one transaction, and since 100 - 40 is
  not rounded her balance is still 100.
\<close>

theorem self_transfer_accepted_witness:
  "distinct (map pix_key (pix_accounts example_db)) \<and>
   dless (Finite 0) (Finite 40) \<and> \<not> dless (Finite 100) (Finite 40) \<and>
   round_double 100 = Finite 100 \<and> round_double (100 - 40) = Finite (100 - 40) \<and>
   fst (pix_transfer ''t9'' 10 10 (transfer_request ''alice@example.com'' (Finite 40))
          alice example_db)
     = Inr [(''message'', ''Transfer completed successfully''), (''transaction_id'', ''t9'')] \<and>
   pix_accounts (snd (pix_transfer ''t9'' 10 10 (transfer_request ''alice@example.com'' (Finite 40))
          alice example_db)) = pix_accounts example_db"
proof -
  let ?a = "account_with ''a-alice'' ''u-alice'' ''alice@example.com'' (Finite 100)"
  let ?td = "transfer_request ''alice@example.com'' (Finite 40)"
  have keys: "distinct (map pix_key (pix_accounts example_db))"
    by (simp add: example_defs)
  have s: "find_one (\<lambda>a. acc_user_id a = u_id alice) (pix_accounts example_db) = Some ?a"
    by (simp add: example_defs)
  have self: "tr_to_pix_key ?td = pix_key ?a"
    by (simp add: example_defs)
  have am: "tr_amount ?td = Finite 40" and b: "balance ?a = Finite 100"
    by (simp_all add: example_defs)
  have pos: "dless (Finite 0) (tr_amount ?td)"
    unfolding am by simp
  have enough: "\<not> dless (balance ?a) (tr_amount ?td)"
    unfolding am b by simp
  have e1: "round_double 100 = Finite 100"
    by (simp add: double_eval)
  have e2: "round_double (100 - 40) = Finite (100 - 40)"
    by (simp add: double_eval)
  from self_transfer_accepted [OF keys s self pos enough, of "''t9''" 10 10]
  obtain tx where
    res: "pix_transfer ''t9'' 10 10 ?td alice example_db =
           (Inr [(''message'', ''Transfer completed successfully''), (''transaction_id'', ''t9'')],
            example_db\<lparr>pix_transactions := pix_transactions example_db @ [tx],
              pix_accounts :=
                update_one (\<lambda>a. acc_user_id a = u_id alice)
                  (\<lambda>a. a\<lparr>balance := dadd (dadd (balance a) (dneg (tr_amount ?td))) (tr_amount ?td)\<rparr>)
                  (pix_accounts example_db)\<rparr>)"
    and ex: "\<forall>b a. balance ?a = Finite b \<and> tr_amount ?td = Finite a \<and>
              round_double b = Finite b \<and> round_double (b - a) = Finite (b - a) \<longrightarrow>
              pix_accounts (snd (pix_transfer ''t9'' 10 10 ?td alice example_db))
                = pix_accounts example_db \<and>
              find_one (\<lambda>a. acc_user_id a = u_id alice)
                (pix_accounts (snd (pix_transfer ''t9'' 10 10 ?td alice example_db))) = Some ?a"
    by blast
  from ex b am e1 e2
  have same: "pix_accounts (snd (pix_transfer ''t9'' 10 10 ?td alice example_db))
                = pix_accounts example_db"
    by blast
  have ok: "fst (pix_transfer ''t9'' 10 10 ?td alice example_db)
     = Inr [(''message'', ''Transfer completed successfully''), (''transaction_id'', ''t9'')]"
    unfolding res by simp
  have p1: "dless (Finite 0) (Finite 40)" and p2: "\<not> dless (Finite 100) (Finite 40)"
    by simp_all
  show ?thesis
    using keys p1 p2 e1 e2 ok same by blast
qed

section \<open>get_pix_transactions\<close>

lemma mset_sort_desc: "mset (sort_desc k xs) = mset xs"
  by (simp add: sort_desc_def)

lemma length_sort_desc: "length (sort_desc k xs) = length xs"
  by (simp add: sort_desc_def)

lemma sorted_sort_desc: "sorted_wrt (\<lambda>a b. k b \<le> k a) (sort_desc k xs)"
proof -
  have "sorted (map k (sort_key k xs))" by simp
  then have "sorted_wrt (\<lambda>a b. k a \<le> k b) (sort_key k xs)"
    by (simp only: sorted_map)
  then show ?thesis
    by (simp only: sort_desc_def sorted_wrt_rev)
qed

lemma mset_take_drop: "mset (take n ys) + mset (drop n ys) = mset ys"
  unfolding mset_append [symmetric] by simp

lemma take_newest:
  assumes "sorted_wrt (\<lambda>a b. k b \<le> k a) ys"
  shows "\<forall>t\<in>set (drop n ys). \<forall>t'\<in>set (take n ys). k t \<le> k t'"
proof -
  have "sorted_wrt (\<lambda>a b. k b \<le> k a) (take n ys @ drop n ys)" using assms by simp
  then show ?thesis
    unfolding sorted_wrt_append by blast
qed

text \<open>
  C5. The list returned for a user holds only stored transactions in which the user is the
  sender or the recipient, none more often than it is stored; it is ordered by creation
  time, newest first; it has at most 100 entries, namely 100 or all the user's
  transactions, whichever is less. When the user has at most 100 transactions the list
  holds exactly these; beyond that, every transaction left out is no newer than any
  transaction returned.
\<close>

theorem get_pix_transactions_page:
  "(\<forall>t\<in>set (get_pix_transactions current_user db).
      t \<in> set (pix_transactions db) \<and>
      (from_user_id t = Some (u_id current_user) \<or> to_user_id t = Some (u_id current_user))) \<and>
   mset (get_pix_transactions current_user db)
     \<subseteq># mset (filter (involves (u_id current_user)) (pix_transactions db)) \<and>
   sorted_wrt (\<lambda>a b. tx_created_at b \<le> tx_created_at a) (get_pix_transactions current_user db) \<and>
   length (get_pix_transactions current_user db) \<le> 100 \<and>
   length (get_pix_transactions current_user db)
     = min 100 (length (filter (involves (u_id current_user)) (pix_transactions db))) \<and>
   (length (filter (involves (u_id current_user)) (pix_transactions db)) \<le> 100 \<longrightarrow>
      mset (get_pix_transactions current_user db)
        = mset (filter (involves (u_id current_user)) (pix_transactions db))) \<and>
   (\<forall>t\<in>#mset (filter (involves (u_id current_user)) (pix_transactions db))
            - mset (get_pix_transactions current_user db).
      \<forall>t'\<in>set (get_pix_transactions current_user db). tx_created_at t \<le> tx_created_at t')"
proof -
  define m where "m = filter (involves (u_id current_user)) (pix_transactions db)"
  define ys where "ys = sort_desc tx_created_at m"
  define r where "r = get_pix_transactions current_user db"
  have g: "r = take 100 ys"
    by (simp add: r_def ys_def m_def get_pix_transactions_def)
  have srt: "sorted_wrt (\<lambda>a b. tx_created_at b \<le> tx_created_at a) ys"
    unfolding ys_def by (rule sorted_sort_desc)
  have ms: "mset ys = mset m" unfolding ys_def by (rule mset_sort_desc)
  have len: "length ys = length m" unfolding ys_def by (rule length_sort_desc)
  have td: "mset r + mset (drop 100 ys) = mset m"
    unfolding g ms [symmetric] by (rule mset_take_drop)
  have sub: "mset r \<subseteq># mset m"
    unfolding td [symmetric] by simp
  have rest: "mset m - mset r = mset (drop 100 ys)"
    unfolding td [symmetric] by simp
  have p1: "\<forall>t\<in>set r. t \<in> set (pix_transactions db) \<and>
      (from_user_id t = Some (u_id current_user) \<or> to_user_id t = Some (u_id current_user))"
  proof
    fix t assume "t \<in> set r"
    then have "t \<in># mset r" by simp
    then have "t \<in># mset m" using sub by (rule mset_subset_eqD [rotated])
    then have "t \<in> set m" by simp
    then show "t \<in> set (pix_transactions db) \<and>
      (from_user_id t = Some (u_id current_user) \<or> to_user_id t = Some (u_id current_user))"
      unfolding m_def by (simp add: involves_def)
  qed
  have p3: "sorted_wrt (\<lambda>a b. tx_created_at b \<le> tx_created_at a) r"
    unfolding g using srt by (rule sorted_wrt_take)
  have p4: "length r \<le> 100" unfolding g by simp
  have p5: "length r = min 100 (length m)" unfolding g len [symmetric] by simp
  have p6: "length m \<le> 100 \<longrightarrow> mset r = mset m"
    unfolding g len [symmetric] ms [symmetric] by simp
  have p7: "\<forall>t\<in>#mset m - mset r. \<forall>t'\<in>set r. tx_created_at t \<le> tx_created_at t'"
    unfolding rest using take_newest [OF srt, of 100] by (simp add: g)
  show ?thesis
    unfolding r_def [symmetric] m_def [symmetric]
    using p1 sub p3 p4 p5 p6 p7 by blast
qed

text \<open>
  Of the three stored transactions Alice takes part in \<open>t1\<close> (time 5) and \<open>t3\<close>
  (time 9): she gets \<open>t3\<close>, then \<open>t1\<close>.
\<close>

theorem get_pix_transactions_page_witness:
  "length (filter (involves (u_id alice)) (pix_transactions example_db)) \<le> 100 \<and>
   mset (get_pix_transactions alice example_db)
     = mset (filter (involves (u_id alice)) (pix_transactions example_db)) \<and>
   map tx_id (filter (involves (u_id alice)) (pix_transactions example_db)) = [''t1'', ''t3''] \<and>
   map tx_id (get_pix_transactions alice example_db) = [''t3'', ''t1''] \<and>
   sorted_wrt (\<lambda>a b. tx_created_at b \<le> tx_created_at a) (get_pix_transactions alice example_db)"
proof -
  have f: "filter (involves (u_id alice)) (pix_transactions example_db)
             = [transaction_with ''t1'' ''u-alice'' ''u-bob'' (Finite 30) 5,
                transaction_with ''t3'' ''u-bob'' ''u-alice'' (Finite 10) 9]"
    by (simp add: example_defs involves_def)
  have h: "length (filter (involves (u_id alice)) (pix_transactions example_db)) \<le> 100"
    unfolding f by simp
  have ids: "map tx_id (filter (involves (u_id alice)) (pix_transactions example_db)) = [''t1'', ''t3'']"
    unfolding f by (simp add: transaction_with_def)
  have r: "map tx_id (get_pix_transactions alice example_db) = [''t3'', ''t1'']"
    unfolding get_pix_transactions_def f by (simp add: sort_desc_def transaction_with_def)
  show ?thesis
    using h ids r get_pix_transactions_page [of alice example_db] by blast
qed

section \<open>create_card\<close>

lemma create_card_rejected:
  "kyc_status current_user \<noteq> ''approved'' \<Longrightarrow>
     create_card g card_data current_user db
       = (Inl (HTTPException 400 ''KYC approval required for card creation''), db)"
  by (simp add: create_card_def)

lemma create_card_created:
  assumes "kyc_status current_user = ''approved''"
      and "cc_daily_limit card_data = Some d" and "cc_monthly_limit card_data = Some m"
  shows "create_card g card_data current_user db =
     (Inr \<lparr>card_id = gen_card_id g, card_user_id = u_id current_user,
           card_number = gen_card_number g,
           card_holder_name = cc_card_holder_name card_data,
           cvv = gen_cvv g, expiry_date = gen_expiry_date g,
           card_status = ''active'', daily_limit = d, monthly_limit = m,
           daily_spent = Finite 0, monthly_spent = Finite 0,
           card_created_at = gen_created_at g, blocked_at = None\<rparr>,
      db\<lparr>virtual_cards := virtual_cards db @
        [\<lparr>card_id = gen_card_id g, card_user_id = u_id current_user,
           card_number = gen_card_number g,
           card_holder_name = cc_card_holder_name card_data,
           cvv = gen_cvv g, expiry_date = gen_expiry_date g,
           card_status = ''active'', daily_limit = d, monthly_limit = m,
           daily_spent = Finite 0, monthly_spent = Finite 0,
           card_created_at = gen_created_at g, blocked_at = None\<rparr>]\<rparr>)"
  using assms by (simp add: create_card_def new_VirtualCard_def insert_one_def)

lemma CardCreate_of_defaults:
  "cc_daily_limit (CardCreate_of holder Absent Absent) = Some (Finite 5000)"
  "cc_monthly_limit (CardCreate_of holder Absent Absent) = Some (Finite 50000)"
  "cc_card_holder_name (CardCreate_of holder daily monthly) = holder"
  by (simp_all add: CardCreate_of_def with_default_def)

text \<open>
  What holds of \<open>create_card\<close>: a caller whose \<open>kyc_status\<close> is not \<open>approved\<close> gets
  400 "KYC approval required for card creation" and the unchanged database, whatever the
  request. An approved caller whose request gives no limits gets a card with
  \<open>daily_limit = 5000\<close> and \<open>monthly_limit = 50000\<close>; with both limits given as numbers,
  a card with these limits.
\<close>

lemma create_card_with_limits:
  "(kyc_status current_user \<noteq> ''approved'' \<longrightarrow>
      create_card g card_data current_user db
        = (Inl (HTTPException 400 ''KYC approval required for card creation''), db)) \<and>
   (kyc_status current_user = ''approved'' \<longrightarrow>
      (\<exists>c. create_card g (CardCreate_of holder Absent Absent) current_user db
              = (Inr c, db\<lparr>virtual_cards := virtual_cards db @ [c]\<rparr>) \<and>
           daily_limit c = Finite 5000 \<and> monthly_limit c = Finite 50000 \<and>
           card_user_id c = u_id current_user \<and> card_holder_name c = holder \<and>
           card_status c = ''active'')) \<and>
   (\<forall>d m. kyc_status current_user = ''approved'' \<and>
      cc_daily_limit card_data = Some d \<and> cc_monthly_limit card_data = Some m \<longrightarrow>
      (\<exists>c. create_card g card_data current_user db
              = (Inr c, db\<lparr>virtual_cards := virtual_cards db @ [c]\<rparr>) \<and>
           daily_limit c = d \<and> monthly_limit c = m))"
proof (intro conjI allI impI)
  assume "kyc_status current_user \<noteq> ''approved''"
  then show "create_card g card_data current_user db
        = (Inl (HTTPException 400 ''KYC approval required for card creation''), db)"
    by (rule create_card_rejected)
next
  assume a: "kyc_status current_user = ''approved''"
  show "\<exists>c. create_card g (CardCreate_of holder Absent Absent) current_user db
              = (Inr c, db\<lparr>virtual_cards := virtual_cards db @ [c]\<rparr>) \<and>
           daily_limit c = Finite 5000 \<and> monthly_limit c = Finite 50000 \<and>
           card_user_id c = u_id current_user \<and> card_holder_name c = holder \<and>
           card_status c = ''active''"
    unfolding create_card_created [OF a CardCreate_of_defaults(1) CardCreate_of_defaults(2)]
    by (simp add: CardCreate_of_defaults)
next
  fix d m
  assume a: "kyc_status current_user = ''approved'' \<and>
      cc_daily_limit card_data = Some d \<and> cc_monthly_limit card_data = Some m"
  show "\<exists>c. create_card g card_data current_user db
              = (Inr c, db\<lparr>virtual_cards := virtual_cards db @ [c]\<rparr>) \<and>
           daily_limit c = d \<and> monthly_limit c = m"
    using a unfolding create_card_created [of current_user card_data d m g db, OF conjunct1 [OF a] conjunct1 [OF conjunct2 [OF a]] conjunct2 [OF conjunct2 [OF a]]]
    by simp
qed

text \<open>
  C6. The claim is that \<open>create_card\<close> succeeds for every caller with
  \<open>kyc_status = approved\<close>. \<open>CardCreate\<close> declares both limits \<open>Optional[float]\<close>, so
  a request may give a limit as \<open>null\<close>; \<open>create_card\<close> hands it to \<open>VirtualCard\<close>,
  whose limits are \<open>float\<close>, and the construction fails with an exception that nothing
  handles. Alice, approved, asking for a card with \<open>daily_limit\<close> \<open>null\<close>: no card is
  returned and none is stored. The refusal of callers who are not approved holds as claimed.
\<close>

theorem approved_user_null_limit_fails:
  "kyc_status (alice\<lparr>kyc_status := ''approved''\<rparr>) = ''approved'' \<and>
   cc_daily_limit (CardCreate_of ''Alice'' Null Absent) = None \<and>
   create_card \<lparr>gen_card_id = ''c1'', gen_card_number = ''4000000000000001'', gen_cvv = ''123'',
                gen_expiry_date = ''11/31'', gen_created_at = 20\<rparr>
       (CardCreate_of ''Alice'' Null Absent) (alice\<lparr>kyc_status := ''approved''\<rparr>) example_db
     = (Inl ValidationError, example_db)"
  by (simp add: create_card_def new_VirtualCard_def CardCreate_of_def with_default_def)

section \<open>review_kyc\<close>

lemma find_one_update_one_same:
  assumes "\<And>x. P (f x) = P x"
  shows "find_one P (update_one P f xs) = map_option f (find_one P xs)"
  using assms by (induction xs) auto

lemma set_review_simps [simp]:
  "kyc_id (set_review status now reviewer notes d) = kyc_id d"
  "kyc_user_id (set_review status now reviewer notes d) = kyc_user_id d"
  "kyc_doc_status (set_review status now reviewer notes d) = status"
  by (simp_all add: set_review_def)

lemma review_kyc_invalid:
  assumes "action ''status'' \<noteq> Some ''approved''" and "action ''status'' \<noteq> Some ''rejected''"
  shows "review_kyc now kid action current_user db = (Inl (HTTPException 400 ''Invalid status''), db)"
  using assms by (cases "action ''status''") (simp_all add: review_kyc_def)

lemma review_kyc_valid:
  assumes st: "action ''status'' = Some status"
      and ok: "status = ''approved'' \<or> status = ''rejected''"
      and doc: "find_one (\<lambda>d. kyc_id d = kid) (kyc_documents db) = Some doc"
  shows "review_kyc now kid action current_user db =
    (Inr [(''message'', ''KYC '' @ status @ '' successfully'')],
     db\<lparr>kyc_documents :=
          update_one (\<lambda>d. kyc_id d = kid)
            (set_review status now (u_id current_user)
               (case action ''notes'' of None \<Rightarrow> [] | Some n \<Rightarrow> n)) (kyc_documents db),
        users :=
          update_one (\<lambda>u. u_id u = kyc_user_id doc)
            (\<lambda>u. u\<lparr>kyc_status := status\<rparr>) (users db)\<rparr>)"
proof -
  have f: "find_one (\<lambda>d. kyc_id d = kid)
             (update_one (\<lambda>d. kyc_id d = kid)
                (set_review status now (u_id current_user)
                   (case action ''notes'' of None \<Rightarrow> [] | Some n \<Rightarrow> n)) (kyc_documents db))
           = Some (set_review status now (u_id current_user)
                   (case action ''notes'' of None \<Rightarrow> [] | Some n \<Rightarrow> n) doc)"
    by (simp add: find_one_update_one_same doc)
  show ?thesis
    using ok by (auto simp add: review_kyc_def Let_def st matched_count_def doc f)
qed

text \<open>
  C8. A review whose \<open>status\<close> is neither \<open>approved\<close> nor \<open>rejected\<close> (or is
  missing) answers 400 "Invalid status" and leaves the database as it was. With
  \<open>approved\<close> or \<open>rejected\<close> and a document stored under the id, the review
  succeeds; afterwards the document found under the id has that status, and the user found
  under the document's \<open>user_id\<close> is the one found before with \<open>kyc_status\<close> set to
  that status.
\<close>

theorem review_kyc_decision:
  "(action ''status'' \<noteq> Some ''approved'' \<and> action ''status'' \<noteq> Some ''rejected'' \<longrightarrow>
      review_kyc now kid action current_user db
        = (Inl (HTTPException 400 ''Invalid status''), db)) \<and>
   (\<forall>status doc.
      action ''status'' = Some status \<and> (status = ''approved'' \<or> status = ''rejected'') \<and>
      find_one (\<lambda>d. kyc_id d = kid) (kyc_documents db) = Some doc \<longrightarrow>
      (\<exists>db'. review_kyc now kid action current_user db
                = (Inr [(''message'', ''KYC '' @ status @ '' successfully'')], db') \<and>
         map_option kyc_doc_status (find_one (\<lambda>d. kyc_id d = kid) (kyc_documents db'))
           = Some status \<and>
         find_one (\<lambda>u. u_id u = kyc_user_id doc) (users db')
           = map_option (\<lambda>u. u\<lparr>kyc_status := status\<rparr>)
               (find_one (\<lambda>u. u_id u = kyc_user_id doc) (users db))))"
proof (intro conjI allI impI)
  assume "action ''status'' \<noteq> Some ''approved'' \<and> action ''status'' \<noteq> Some ''rejected''"
  then show "review_kyc now kid action current_user db
        = (Inl (HTTPException 400 ''Invalid status''), db)"
    by (simp add: review_kyc_invalid)
next
  fix status doc
  assume a: "action ''status'' = Some status \<and> (status = ''approved'' \<or> status = ''rejected'') \<and>
      find_one (\<lambda>d. kyc_id d = kid) (kyc_documents db) = Some doc"
  then have st: "action ''status'' = Some status"
    and ok: "status = ''approved'' \<or> status = ''rejected''"
    and doc: "find_one (\<lambda>d. kyc_id d = kid) (kyc_documents db) = Some doc"
    by simp_all
  show "\<exists>db'. review_kyc now kid action current_user db
                = (Inr [(''message'', ''KYC '' @ status @ '' successfully'')], db') \<and>
         map_option kyc_doc_status (find_one (\<lambda>d. kyc_id d = kid) (kyc_documents db'))
           = Some status \<and>
         find_one (\<lambda>u. u_id u = kyc_user_id doc) (users db')
           = map_option (\<lambda>u. u\<lparr>kyc_status := status\<rparr>)
               (find_one (\<lambda>u. u_id u = kyc_user_id doc) (users db))"
    unfolding review_kyc_valid [where action = action, OF st ok doc]
    by (simp add: find_one_update_one_same doc)
qed

text \<open>
  On Bob's document: the status \<open>maybe\<close> is refused; \<open>approved\<close> sets the
  document and Bob's \<open>kyc_status\<close> to \<open>approved\<close>.
\<close>

theorem review_kyc_decision_witness:
  "review_kyc 20 ''k-bob'' [''status'' \<mapsto> ''maybe''] alice example_db
     = (Inl (HTTPException 400 ''Invalid status''), example_db) \<and>
   (\<exists>db'. review_kyc 20 ''k-bob'' [''status'' \<mapsto> ''approved''] alice example_db
            = (Inr [(''message'', ''KYC approved successfully'')], db') \<and>
      map_option kyc_doc_status (find_one (\<lambda>d. kyc_id d = ''k-bob'') (kyc_documents db'))
        = Some ''approved'' \<and>
      map_option kyc_status (find_one (\<lambda>u. u_id u = ''u-bob'') (users db')) = Some ''approved'')"
proof -
  have bad: "[''status'' \<mapsto> ''maybe''] ''status'' \<noteq> Some ''approved'' \<and>
             [''status'' \<mapsto> ''maybe''] ''status'' \<noteq> Some ''rejected''"
    by simp
  have good: "[''status'' \<mapsto> ''approved''] ''status'' = Some ''approved'' \<and>
              (''approved'' = ''approved'' \<or> ''approved'' = ''rejected'') \<and>
              find_one (\<lambda>d. kyc_id d = ''k-bob'') (kyc_documents example_db) = Some bob_kyc"
    by (simp add: example_defs)
  have u: "map_option kyc_status (map_option (\<lambda>u. u\<lparr>kyc_status := ''approved''\<rparr>)
             (find_one (\<lambda>u. u_id u = kyc_user_id bob_kyc) (users example_db))) = Some ''approved''"
    by (simp add: example_defs User.defs user_doc.defs)
  have k: "kyc_user_id bob_kyc = ''u-bob''" by (simp add: bob_kyc_def)
  have m: "''KYC '' @ ''approved'' @ '' successfully'' = ''KYC approved successfully''" by simp
  from review_kyc_decision [of "[''status'' \<mapsto> ''maybe'']" 20 "''k-bob''" alice example_db] bad
  have 1: "review_kyc 20 ''k-bob'' [''status'' \<mapsto> ''maybe''] alice example_db
     = (Inl (HTTPException 400 ''Invalid status''), example_db)"
    by blast
  from review_kyc_decision [of "[''status'' \<mapsto> ''approved'']" 20 "''k-bob''" alice example_db] good
  obtain db' where
    "review_kyc 20 ''k-bob'' [''status'' \<mapsto> ''approved''] alice example_db
            = (Inr [(''message'', ''KYC '' @ ''approved'' @ '' successfully'')], db')"
    "map_option kyc_doc_status (find_one (\<lambda>d. kyc_id d = ''k-bob'') (kyc_documents db'))
        = Some ''approved''"
    "find_one (\<lambda>u. u_id u = kyc_user_id bob_kyc) (users db')
           = map_option (\<lambda>u. u\<lparr>kyc_status := ''approved''\<rparr>)
               (find_one (\<lambda>u. u_id u = kyc_user_id bob_kyc) (users example_db))"
    by blast
  then have 2: "\<exists>db'. review_kyc 20 ''k-bob'' [''status'' \<mapsto> ''approved''] alice example_db
            = (Inr [(''message'', ''KYC approved successfully'')], db') \<and>
      map_option kyc_doc_status (find_one (\<lambda>d. kyc_id d = ''k-bob'') (kyc_documents db'))
        = Some ''approved'' \<and>
      map_option kyc_status (find_one (\<lambda>u. u_id u = ''u-bob'') (users db')) = Some ''approved''"
    using u unfolding k m by (intro exI [of _ db']) simp
  show ?thesis using 1 2 by blast
qed

section \<open>generate_pix_qr\<close>

text \<open>
  The operation returns the database it was given. When the caller has an account, the
  text handed to the QR renderer is the serialisation of a payload that holds the account's
  key, the requested amount and the requested description.
\<close>

lemma generate_pix_qr_reads_only:
  "snd (generate_pix_qr json_dumps generate_qr_code str_float qr_data current_user db) = db \<and>
   (\<forall>pix_account.
      find_one (\<lambda>a. acc_user_id a = u_id current_user) (pix_accounts db) = Some pix_account \<longrightarrow>
      fst (generate_pix_qr json_dumps generate_qr_code str_float qr_data current_user db) =
        Inr [(''qr_code'',
              generate_qr_code (json_dumps
                [(''pix_key'', JString (pix_key pix_account)),
                 (''amount'', JNumber (qr_amount qr_data)),
                 (''description'',
                    (case qr_description qr_data of None \<Rightarrow> JNull | Some d \<Rightarrow> JString d)),
                 (''merchant_name'', JString (full_name current_user))])),
             (''pix_key'', pix_key pix_account),
             (''amount'', str_float (qr_amount qr_data))])"
  by (simp add: generate_pix_qr_def Let_def split: option.splits)

section \<open>Reachable states keep owners and keys of accounts unique\<close>

text \<open>
  The hypotheses of C1 and C9 on the accounts hold in the empty database and are kept by
  \<open>register\<close> (given a fresh user id) and by \<open>pix_transfer\<close>.
\<close>

lemma map_update_one:
  assumes "\<And>x. k (f x) = k x"
  shows "map k (update_one P f xs) = map k xs"
  using assms by (induction xs) auto

lemma pix_transfer_keeps_owners_and_keys:
  "map acc_user_id (pix_accounts (snd (pix_transfer new_id now_created now_completed transfer_data current_user db)))
     = map acc_user_id (pix_accounts db) \<and>
   map pix_key (pix_accounts (snd (pix_transfer new_id now_created now_completed transfer_data current_user db)))
     = map pix_key (pix_accounts db) \<and>
   users (snd (pix_transfer new_id now_created now_completed transfer_data current_user db)) = users db"
  by (simp add: pix_transfer_def Let_def map_update_one split: option.splits)

lemma register_keeps_unique_accounts:
  assumes "unique_accounts db" and "new_user_id \<notin> set (map acc_user_id (pix_accounts db))"
  shows "unique_accounts (snd (register new_user_id user_now hashed_password new_account_id account_now user_data db))"
  using assms
  by (auto simp add: unique_accounts_def register_def Let_def insert_one_def find_one_None_iff
      split: option.splits)

lemma pix_transfer_keeps_unique_accounts:
  assumes "unique_accounts db"
  shows "unique_accounts (snd (pix_transfer new_id now_created now_completed transfer_data current_user db))"
  using assms pix_transfer_keeps_owners_and_keys [of new_id now_created now_completed transfer_data current_user db]
  by (simp add: unique_accounts_def)

lemma unique_accounts_empty: "unique_accounts empty_database"
  by (simp add: unique_accounts_def empty_database_def)

end
